theory Spec2Isabelle
  imports Main "HOL-Library.Word"
begin

section \<open>Python values, the coordinator's data and errors\<close>

text \<open>
  The values that flow through \<^verbatim>\<open>sensor.py\<close>: the coordinator's \<^verbatim>\<open>data\<close>
  attribute, the raw readings stored in it and an entity's cached \<^verbatim>\<open>_value\<close>.
  A dictionary is a map from string keys to values; a float is carried as its
  64-bit pattern, which this module never inspects.
\<close>

datatype pyval =
    PyNone
  | PyBool bool
  | PyInt int
  | PyStr string
  | PyFloat "64 word"
  | PyDict "string \<Rightarrow> pyval option"

text \<open>The exceptions the modelled statements can raise.\<close>

datatype error = AttributeError

text \<open>A record written by \<^verbatim>\<open>_LOGGER.debug(fmt, key, data)\<close>.\<close>

datatype log_record = Debug string string pyval

text \<open>
  \<^verbatim>\<open>obj.get(key)\<close>: on a dictionary the stored value, or \<^verbatim>\<open>None\<close> when the key is
  absent; every other value of \<^typ>\<open>pyval\<close> has no attribute \<^verbatim>\<open>get\<close>.
\<close>

fun py_get :: "pyval \<Rightarrow> string \<Rightarrow> error + pyval" where
  "py_get (PyDict m) k = Inr (case m k of None \<Rightarrow> PyNone | Some v \<Rightarrow> v)"
| "py_get PyNone k = Inl AttributeError"
| "py_get (PyBool b) k = Inl AttributeError"
| "py_get (PyInt i) k = Inl AttributeError"
| "py_get (PyStr s) k = Inl AttributeError"
| "py_get (PyFloat w) k = Inl AttributeError"

section \<open>String formatting\<close>

text \<open>\<^verbatim>\<open>str(n)\<close> for an integer: decimal digits, most significant first, with a sign.\<close>

definition digit_char :: "nat \<Rightarrow> char" where
  "digit_char d = ''0123456789'' ! d"

fun str_nat :: "nat \<Rightarrow> string" where
  "str_nat n = (if n < 10 then [digit_char n] else str_nat (n div 10) @ [digit_char (n mod 10)])"

declare str_nat.simps [simp del]

definition str_int :: "int \<Rightarrow> string" where
  "str_int i = (if i < 0 then CHR ''-'' # str_nat (nat (- i)) else str_nat (nat i))"

text \<open>
  \<^verbatim>\<open>template.format(port=port_nr)\<close>. The templates of this module contain the
  replacement field \<^verbatim>\<open>{port}\<close> and no other brace, so the model substitutes every
  occurrence of that field and copies all other characters.
\<close>

function format_port :: "string \<Rightarrow> int \<Rightarrow> string" where
  "format_port [] port = []"
| "format_port (c # cs) port =
     (if take 6 (c # cs) = ''{port}'' then str_int port @ format_port (drop 5 cs) port
      else c # format_port cs port)"
  by pat_completeness auto
termination
  by (relation "measure (\<lambda>(s, port). length s)") auto

section \<open>Sensor descriptions\<close>

datatype EntityCategory = CONFIG | DIAGNOSTIC

datatype SensorDeviceClass = DATA_RATE | DATA_SIZE | DURATION

datatype unit_of_measurement = MEGABYTES | MEGABYTES_PER_SECOND | SECONDS | UnitLiteral string

text \<open>
  The fields of the platform's \<^verbatim>\<open>SensorEntityDescription\<close> that this module sets.
\<close>

record SensorEntityDescription =
  key :: string
  name :: string
  entity_category :: "EntityCategory option"
  native_unit_of_measurement :: "unit_of_measurement option"
  device_class :: "SensorDeviceClass option"
  icon :: string

text \<open>
  \<^verbatim>\<open>NetgearSensorEntityDescription\<close> extends it with \<^verbatim>\<open>value\<close> (default: the
  identity) and \<^verbatim>\<open>index\<close> (default: 0). The callable \<^verbatim>\<open>value\<close> is modelled as a
  total function on values; no description of this module overrides the default.
\<close>

record NetgearSensorEntityDescription = SensorEntityDescription +
  value_fn :: "pyval \<Rightarrow> pyval"
  index :: int

text \<open>
  The dataclass constructor as the module calls it: the keyword arguments given,
  \<^verbatim>\<open>value\<close> and \<^verbatim>\<open>index\<close> at their defaults.
\<close>

definition NetgearSensorEntityDescription_init ::
  "string \<Rightarrow> string \<Rightarrow> EntityCategory option \<Rightarrow> unit_of_measurement option \<Rightarrow>
   SensorDeviceClass option \<Rightarrow> string \<Rightarrow> NetgearSensorEntityDescription" where
  "NetgearSensorEntityDescription_init k n cat u dc ic =
     \<lparr>key = k, name = n, entity_category = cat, native_unit_of_measurement = u,
      device_class = dc, icon = ic, value_fn = (\<lambda>data. data), index = 0\<rparr>"

text \<open>\<^verbatim>\<open>SENSOR_TYPES\<close>, a dictionary with one entry.\<close>

definition SENSOR_TYPES :: "(string \<times> SensorEntityDescription) list" where
  "SENSOR_TYPES =
  [ (''link_rate'',
     \<lparr>key = ''link_rate'', name = ''link rate'', entity_category = Some DIAGNOSTIC,
      native_unit_of_measurement = Some (UnitLiteral ''Mbps''), device_class = None,
      icon = ''mdi:speedometer''\<rparr>) ]"

definition DEVICE_SENSOR_TYPES :: "NetgearSensorEntityDescription list" where
  "DEVICE_SENSOR_TYPES =
  [ NetgearSensorEntityDescription_init ''switch_ip'' ''IP Address'' (Some DIAGNOSTIC) None None ''mdi:switch'',
    NetgearSensorEntityDescription_init ''switch_name'' ''Switch Name'' (Some DIAGNOSTIC) None None ''mdi:text'',
    NetgearSensorEntityDescription_init ''switch_bootloader'' ''Switch Bootlader'' (Some DIAGNOSTIC) None None ''mdi:text'',
    NetgearSensorEntityDescription_init ''switch_firmware'' ''Switch Firmware'' (Some DIAGNOSTIC) None None ''mdi:text'',
    NetgearSensorEntityDescription_init ''switch_serial_number'' ''Switch Serial Number'' (Some DIAGNOSTIC) None None ''mdi:text'',
    NetgearSensorEntityDescription_init ''response_time_s'' ''Response Time (seconds)'' (Some DIAGNOSTIC)
      (Some SECONDS) (Some DURATION) ''mdi:clock'' ]"

text \<open>
  \<^verbatim>\<open>PORT_TEMPLATE\<close>, an ordered dictionary from key template to the entry's
  metadata; an association list keeps the iteration order of \<^verbatim>\<open>items()\<close>.
\<close>

record port_sensor_data =
  t_name :: string
  t_native_unit_of_measurement :: unit_of_measurement
  t_device_class :: SensorDeviceClass
  t_icon :: string

definition PORT_TEMPLATE :: "(string \<times> port_sensor_data) list" where
  "PORT_TEMPLATE =
  [ (''port_{port}_traffic_rx_mbytes'',
     \<lparr>t_name = ''Port {port} Traffic Received'', t_native_unit_of_measurement = MEGABYTES,
      t_device_class = DATA_SIZE, t_icon = ''mdi:download''\<rparr>),
    (''port_{port}_traffic_tx_mbytes'',
     \<lparr>t_name = ''Port {port} Traffic Transferred'', t_native_unit_of_measurement = MEGABYTES,
      t_device_class = DATA_SIZE, t_icon = ''mdi:upload''\<rparr>),
    (''port_{port}_speed_rx_mbytes'',
     \<lparr>t_name = ''Port {port} Receiving'', t_native_unit_of_measurement = MEGABYTES_PER_SECOND,
      t_device_class = DATA_RATE, t_icon = ''mdi:download''\<rparr>),
    (''port_{port}_speed_tx_mbytes'',
     \<lparr>t_name = ''Port {port} Receiving'', t_native_unit_of_measurement = MEGABYTES_PER_SECOND,
      t_device_class = DATA_RATE, t_icon = ''mdi:upload''\<rparr>),
    (''port_{port}_speed_io_mbytes'',
     \<lparr>t_name = ''Port {port} Receiving'', t_native_unit_of_measurement = MEGABYTES_PER_SECOND,
      t_device_class = DATA_RATE, t_icon = ''mdi:swap-vertical''\<rparr>) ]"

text \<open>\<^verbatim>\<open>PORT_SENSORS\<close>, the hand-written list for ports 1 to 8.\<close>

definition PORT_SENSORS :: "NetgearSensorEntityDescription list" where
  "PORT_SENSORS =
  [ NetgearSensorEntityDescription_init ''port_1_traffic_rx_mbytes'' ''Port 1 Traffic Received'' None (Some MEGABYTES) (Some DATA_SIZE) ''mdi:download'',
    NetgearSensorEntityDescription_init ''port_1_traffic_tx_mbytes'' ''Port 1 Traffic Transferred'' None (Some MEGABYTES) (Some DATA_SIZE) ''mdi:upload'',
    NetgearSensorEntityDescription_init ''port_1_speed_rx_mbytes'' ''Port 1 Receiving'' None (Some MEGABYTES_PER_SECOND) (Some DATA_RATE) ''mdi:download'',
    NetgearSensorEntityDescription_init ''port_1_speed_tx_mbytes'' ''Port 1 Transferring'' None (Some MEGABYTES_PER_SECOND) (Some DATA_RATE) ''mdi:upload'',
    NetgearSensorEntityDescription_init ''port_1_speed_io_mbytes'' ''Port 1 IO'' None (Some MEGABYTES_PER_SECOND) (Some DATA_RATE) ''mdi:swap-vertical'',
    NetgearSensorEntityDescription_init ''port_2_traffic_rx_mbytes'' ''Port 2 Traffic Received'' None (Some MEGABYTES) (Some DATA_SIZE) ''mdi:download'',
    NetgearSensorEntityDescription_init ''port_2_traffic_tx_mbytes'' ''Port 2 Traffic Transferred'' None (Some MEGABYTES) (Some DATA_SIZE) ''mdi:upload'',
    NetgearSensorEntityDescription_init ''port_2_speed_rx_mbytes'' ''Port 2 Receiving'' None (Some MEGABYTES_PER_SECOND) (Some DATA_RATE) ''mdi:download'',
    NetgearSensorEntityDescription_init ''port_2_speed_tx_mbytes'' ''Port 2 Transferring'' None (Some MEGABYTES_PER_SECOND) (Some DATA_RATE) ''mdi:upload'',
    NetgearSensorEntityDescription_init ''port_2_speed_io_mbytes'' ''Port 2 IO'' None (Some MEGABYTES_PER_SECOND) (Some DATA_RATE) ''mdi:swap-vertical'',
    NetgearSensorEntityDescription_init ''port_3_traffic_rx_mbytes'' ''Port 3 Traffic Received'' None (Some MEGABYTES) (Some DATA_SIZE) ''mdi:download'',
    NetgearSensorEntityDescription_init ''port_3_traffic_tx_mbytes'' ''Port 3 Traffic Transferred'' None (Some MEGABYTES) (Some DATA_SIZE) ''mdi:upload'',
    NetgearSensorEntityDescription_init ''port_3_speed_rx_mbytes'' ''Port 3 Receiving'' None (Some MEGABYTES_PER_SECOND) (Some DATA_RATE) ''mdi:download'',
    NetgearSensorEntityDescription_init ''port_3_speed_tx_mbytes'' ''Port 3 Transferring'' None (Some MEGABYTES_PER_SECOND) (Some DATA_RATE) ''mdi:upload'',
    NetgearSensorEntityDescription_init ''port_3_speed_io_mbytes'' ''Port 3 IO'' None (Some MEGABYTES_PER_SECOND) (Some DATA_RATE) ''mdi:swap-vertical'',
    NetgearSensorEntityDescription_init ''port_4_traffic_rx_mbytes'' ''Port 4 Traffic Received'' None (Some MEGABYTES) (Some DATA_SIZE) ''mdi:download'',
    NetgearSensorEntityDescription_init ''port_4_traffic_tx_mbytes'' ''Port 4 Traffic Transferred'' None (Some MEGABYTES) (Some DATA_SIZE) ''mdi:upload'',
    NetgearSensorEntityDescription_init ''port_4_speed_rx_mbytes'' ''Port 4 Receiving'' None (Some MEGABYTES_PER_SECOND) (Some DATA_RATE) ''mdi:download'',
    NetgearSensorEntityDescription_init ''port_4_speed_tx_mbytes'' ''Port 4 Transferring'' None (Some MEGABYTES_PER_SECOND) (Some DATA_RATE) ''mdi:upload'',
    NetgearSensorEntityDescription_init ''port_4_speed_io_mbytes'' ''Port 4 IO'' None (Some MEGABYTES_PER_SECOND) (Some DATA_RATE) ''mdi:swap-vertical'',
    NetgearSensorEntityDescription_init ''port_5_traffic_rx_mbytes'' ''Port 5 Traffic Received'' None (Some MEGABYTES) (Some DATA_SIZE) ''mdi:download'',
    NetgearSensorEntityDescription_init ''port_5_traffic_tx_mbytes'' ''Port 5 Traffic Transferred'' None (Some MEGABYTES) (Some DATA_SIZE) ''mdi:upload'',
    NetgearSensorEntityDescription_init ''port_5_speed_rx_mbytes'' ''Port 5 Receiving'' None (Some MEGABYTES_PER_SECOND) (Some DATA_RATE) ''mdi:download'',
    NetgearSensorEntityDescription_init ''port_5_speed_tx_mbytes'' ''Port 5 Transferring'' None (Some MEGABYTES_PER_SECOND) (Some DATA_RATE) ''mdi:upload'',
    NetgearSensorEntityDescription_init ''port_5_speed_io_mbytes'' ''Port 5 IO'' None (Some MEGABYTES_PER_SECOND) (Some DATA_RATE) ''mdi:swap-vertical'',
    NetgearSensorEntityDescription_init ''port_6_traffic_rx_mbytes'' ''Port 6 Traffic Received'' None (Some MEGABYTES) (Some DATA_SIZE) ''mdi:download'',
    NetgearSensorEntityDescription_init ''port_6_traffic_tx_mbytes'' ''Port 6 Traffic Transferred'' None (Some MEGABYTES) (Some DATA_SIZE) ''mdi:upload'',
    NetgearSensorEntityDescription_init ''port_6_speed_rx_mbytes'' ''Port 6 Receiving'' None (Some MEGABYTES_PER_SECOND) (Some DATA_RATE) ''mdi:download'',
    NetgearSensorEntityDescription_init ''port_6_speed_tx_mbytes'' ''Port 6 Transferring'' None (Some MEGABYTES_PER_SECOND) (Some DATA_RATE) ''mdi:upload'',
    NetgearSensorEntityDescription_init ''port_6_speed_io_mbytes'' ''Port 6 IO'' None (Some MEGABYTES_PER_SECOND) (Some DATA_RATE) ''mdi:swap-vertical'',
    NetgearSensorEntityDescription_init ''port_7_traffic_rx_mbytes'' ''Port 7 Traffic Received'' None (Some MEGABYTES) (Some DATA_SIZE) ''mdi:download'',
    NetgearSensorEntityDescription_init ''port_7_traffic_tx_mbytes'' ''Port 7 Traffic Transferred'' None (Some MEGABYTES) (Some DATA_SIZE) ''mdi:upload'',
    NetgearSensorEntityDescription_init ''port_7_speed_rx_mbytes'' ''Port 7 Receiving'' None (Some MEGABYTES_PER_SECOND) (Some DATA_RATE) ''mdi:download'',
    NetgearSensorEntityDescription_init ''port_7_speed_tx_mbytes'' ''Port 7 Transferring'' None (Some MEGABYTES_PER_SECOND) (Some DATA_RATE) ''mdi:upload'',
    NetgearSensorEntityDescription_init ''port_7_speed_io_mbytes'' ''Port 7 IO'' None (Some MEGABYTES_PER_SECOND) (Some DATA_RATE) ''mdi:swap-vertical'',
    NetgearSensorEntityDescription_init ''port_8_traffic_rx_mbytes'' ''Port 8 Traffic Received'' None (Some MEGABYTES) (Some DATA_SIZE) ''mdi:download'',
    NetgearSensorEntityDescription_init ''port_8_traffic_tx_mbytes'' ''Port 8 Traffic Transferred'' None (Some MEGABYTES) (Some DATA_SIZE) ''mdi:upload'',
    NetgearSensorEntityDescription_init ''port_8_speed_rx_mbytes'' ''Port 8 Receiving'' None (Some MEGABYTES_PER_SECOND) (Some DATA_RATE) ''mdi:download'',
    NetgearSensorEntityDescription_init ''port_8_speed_tx_mbytes'' ''Port 8 Transferring'' None (Some MEGABYTES_PER_SECOND) (Some DATA_RATE) ''mdi:upload'',
    NetgearSensorEntityDescription_init ''port_8_speed_io_mbytes'' ''Port 8 IO'' None (Some MEGABYTES_PER_SECOND) (Some DATA_RATE) ''mdi:swap-vertical'' ]"

section \<open>The switch, the persisted state and the sensor entity\<close>

text \<open>
  What this module reads of the switch object: its name and its unique identifier,
  both strings, and its number of ports.
\<close>

record HAGS108Switch =
  device_name :: string
  unique_id :: string
  SWITCH_PORTS :: int

text \<open>What \<^verbatim>\<open>async_get_last_sensor_data()\<close> returns when a state was persisted.\<close>

record SensorExtraStoredData =
  stored_native_value :: pyval

text \<open>
  The attributes of \<^verbatim>\<open>NetgearRouterSensorEntity\<close> that \<^verbatim>\<open>__init__\<close> assigns:
  \<^verbatim>\<open>entity_description\<close>, and \<^verbatim>\<open>_name\<close>, \<^verbatim>\<open>_unique_id\<close> and \<^verbatim>\<open>_value\<close> under the
  names \<open>self_name\<close>, \<open>self_unique_id\<close> and \<open>self_value\<close>. The coordinator is
  shared with the platform, so its \<^verbatim>\<open>data\<close> is passed to each operation as the
  value it has when the operation runs.
\<close>

record NetgearRouterSensorEntity =
  entity_description :: NetgearSensorEntityDescription
  self_name :: string
  self_unique_id :: string
  self_value :: pyval

text \<open>The format string of the debug record: the key and the data, each in single quotes.\<close>

definition missing_key_format :: string where
  "missing_key_format =
     ''key '' @ [CHR 0x27] @ ''%s'' @ [CHR 0x27] @ '' not in Netgear router response '' @
     [CHR 0x27] @ ''%s'' @ [CHR 0x27]"

text \<open>
  \<^verbatim>\<open>async_update_device\<close>: returns the entity as updated and the records logged,
  or the exception raised.
\<close>

definition async_update_device ::
  "pyval \<Rightarrow> NetgearRouterSensorEntity \<Rightarrow> error + (NetgearRouterSensorEntity \<times> log_record list)" where
  "async_update_device coordinator_data self =
     (if coordinator_data = PyNone then Inr (self, [])
      else
        case py_get coordinator_data (key (entity_description self)) of
          Inl err \<Rightarrow> Inl err
        | Inr data \<Rightarrow>
            if data = PyNone then
              Inr (self\<lparr>self_value := PyNone\<rparr>,
                   [Debug missing_key_format (key (entity_description self)) data])
            else
              Inr (self\<lparr>self_value := value_fn (entity_description self) data\<rparr>, []))"

text \<open>
  \<^verbatim>\<open>__init__\<close>: after the base-class constructor, which keeps the coordinator and
  the switch, the attributes are assigned and the entity refreshes itself.
\<close>

definition NetgearRouterSensorEntity_init ::
  "pyval \<Rightarrow> HAGS108Switch \<Rightarrow> NetgearSensorEntityDescription \<Rightarrow>
   error + (NetgearRouterSensorEntity \<times> log_record list)" where
  "NetgearRouterSensorEntity_init coordinator_data switch description =
     async_update_device coordinator_data
       \<lparr>entity_description = description,
        self_name = device_name switch @ '' '' @ name description,
        self_unique_id =
          unique_id switch @ ''-'' @ key description @ ''-'' @ str_int (index description),
        self_value = PyNone\<rparr>"

text \<open>The property \<^verbatim>\<open>native_value\<close>.\<close>

definition native_value :: "NetgearRouterSensorEntity \<Rightarrow> pyval" where
  "native_value self = self_value self"

text \<open>
  \<^verbatim>\<open>async_added_to_hass\<close>, given what \<^verbatim>\<open>async_get_last_sensor_data()\<close> would
  return. The call to the base class registers the entity with the platform and
  assigns none of the attributes above.
\<close>

definition async_added_to_hass ::
  "pyval \<Rightarrow> SensorExtraStoredData option \<Rightarrow> NetgearRouterSensorEntity \<Rightarrow> NetgearRouterSensorEntity" where
  "async_added_to_hass coordinator_data last_sensor_data self =
     (if coordinator_data = PyNone then
        (case last_sensor_data of
           None \<Rightarrow> self
         | Some sensor_data \<Rightarrow> self\<lparr>self_value := stored_native_value sensor_data\<rparr>)
      else self)"

section \<open>Setup\<close>

text \<open>
  The loop that constructs one entity per description and appends it to
  \<^verbatim>\<open>switch_entities\<close>: the entities in order with the records logged, or the
  first exception.
\<close>

fun create_entities ::
  "pyval \<Rightarrow> HAGS108Switch \<Rightarrow> NetgearSensorEntityDescription list \<Rightarrow>
   error + (NetgearRouterSensorEntity list \<times> log_record list)" where
  "create_entities coordinator_data switch [] = Inr ([], [])"
| "create_entities coordinator_data switch (description # rest) =
     (case NetgearRouterSensorEntity_init coordinator_data switch description of
        Inl err \<Rightarrow> Inl err
      | Inr (entity, logged) \<Rightarrow>
          (case create_entities coordinator_data switch rest of
             Inl err \<Rightarrow> Inl err
           | Inr (entities, logged') \<Rightarrow> Inr (entity # entities, logged @ logged')))"

text \<open>The description built in the inner loop for one port and one template entry.\<close>

definition port_description :: "int \<Rightarrow> string \<times> port_sensor_data \<Rightarrow> NetgearSensorEntityDescription" where
  "port_description port_nr item =
     (case item of (port_sensor_key, port_sensor_data) \<Rightarrow>
        NetgearSensorEntityDescription_init
          (format_port port_sensor_key port_nr)
          (format_port (t_name port_sensor_data) port_nr)
          None
          (Some (t_native_unit_of_measurement port_sensor_data))
          (Some (t_device_class port_sensor_data))
          (t_icon port_sensor_data))"

text \<open>
  The descriptions of the nested loop, in the order the loop builds them:
  \<^verbatim>\<open>range(ports_cnt)\<close> is \<open>[0..ports_cnt - 1]\<close>, empty when \<open>ports_cnt \<le> 0\<close>.
\<close>

definition port_descriptions :: "int \<Rightarrow> NetgearSensorEntityDescription list" where
  "port_descriptions ports_cnt =
     concat (map (\<lambda>i. map (port_description (i + 1)) PORT_TEMPLATE) [0..ports_cnt - 1])"

text \<open>
  \<^verbatim>\<open>async_setup_entry\<close>: the entities handed to \<^verbatim>\<open>async_add_entities\<close>, the records
  logged, and the coordinator's \<^verbatim>\<open>data\<close> as the last statement leaves it.
\<close>

definition async_setup_entry ::
  "pyval \<Rightarrow> HAGS108Switch \<Rightarrow>
   error + (NetgearRouterSensorEntity list \<times> log_record list \<times> pyval)" where
  "async_setup_entry coordinator_data gs_switch =
     (case create_entities coordinator_data gs_switch
             (DEVICE_SENSOR_TYPES @ port_descriptions (SWITCH_PORTS gs_switch)) of
        Inl err \<Rightarrow> Inl err
      | Inr (switch_entities, logged) \<Rightarrow> Inr (switch_entities, logged, PyBool True))"

section \<open>The port keys in closed form\<close>

text \<open>
  What remains of the five key templates after the replacement field, and the key
  of a port built from its number and such a remainder.
\<close>

definition port_key_suffixes :: "string list" where
  "port_key_suffixes =
     [''traffic_rx_mbytes'', ''traffic_tx_mbytes'', ''speed_rx_mbytes'', ''speed_tx_mbytes'',
      ''speed_io_mbytes'']"

definition port_key :: "int \<Rightarrow> string \<Rightarrow> string" where
  "port_key p s = ''port_'' @ str_int p @ ''_'' @ s"

section \<open>Example inputs\<close>

text \<open>
  The first device-level description, an entity bound to it that already caches a
  reading, and a switch with two ports.
\<close>

definition ex_description :: NetgearSensorEntityDescription where
  "ex_description =
     NetgearSensorEntityDescription_init ''switch_ip'' ''IP Address'' (Some DIAGNOSTIC) None None
       ''mdi:switch''"

definition ex_entity :: NetgearRouterSensorEntity where
  "ex_entity =
     \<lparr>entity_description = ex_description, self_name = ''sw IP Address'',
      self_unique_id = ''abc-switch_ip-0'', self_value = PyStr ''10.0.0.2''\<rparr>"

definition ex_switch :: HAGS108Switch where
  "ex_switch = \<lparr>device_name = ''sw'', unique_id = ''abc'', SWITCH_PORTS = 2\<rparr>"

text \<open>
  The entity that \<^verbatim>\<open>__init__\<close> builds for that description while the snapshot
  is unset, a persisted state, the same switch after a rename, and a description
  whose \<^verbatim>\<open>value\<close> is \<^verbatim>\<open>lambda data: 0\<close> with an entity bound to it.
\<close>

definition ex_fresh :: NetgearRouterSensorEntity where
  "ex_fresh =
     \<lparr>entity_description = ex_description, self_name = ''sw IP Address'',
      self_unique_id = ''abc-switch_ip-0'', self_value = PyNone\<rparr>"

definition ex_stored :: SensorExtraStoredData where
  "ex_stored = \<lparr>stored_native_value = PyStr ''10.0.0.2''\<rparr>"

definition ex_switch_renamed :: HAGS108Switch where
  "ex_switch_renamed = \<lparr>device_name = ''office'', unique_id = ''abc'', SWITCH_PORTS = 8\<rparr>"

definition ex_const_description :: NetgearSensorEntityDescription where
  "ex_const_description = ex_description\<lparr>value_fn := (\<lambda>data. PyInt 0)\<rparr>"

definition ex_const_entity :: NetgearRouterSensorEntity where
  "ex_const_entity = ex_entity\<lparr>entity_description := ex_const_description\<rparr>"

section \<open>The invariant of the cached value\<close>

text \<open>
  The property the data model states of an entity and the snapshot: the cached
  value is \<^verbatim>\<open>None\<close>, or the snapshot is a dictionary holding the entity's key and
  the cached value is the extraction function applied to the value stored there.
\<close>

definition cached_value_invariant :: "pyval \<Rightarrow> NetgearRouterSensorEntity \<Rightarrow> bool" where
  "cached_value_invariant coordinator_data self \<longleftrightarrow>
     self_value self = PyNone \<or>
     (case coordinator_data of
        PyDict m \<Rightarrow>
          (case m (key (entity_description self)) of
             None \<Rightarrow> False
           | Some v \<Rightarrow> self_value self = value_fn (entity_description self) v)
      | _ \<Rightarrow> False)"

section \<open>Basic facts\<close>

lemma key_ex_entity [simp]: "key (entity_description ex_entity) = ''switch_ip''"
  by (simp add: ex_entity_def ex_description_def NetgearSensorEntityDescription_init_def)

lemma value_fn_ex_entity [simp]: "value_fn (entity_description ex_entity) = (\<lambda>data. data)"
  by (simp add: ex_entity_def ex_description_def NetgearSensorEntityDescription_init_def)

lemma str_nat_small: "n < 10 \<Longrightarrow> str_nat n = [digit_char n]"
  by (simp add: str_nat.simps)

lemma str_nat_large: "\<not> n < 10 \<Longrightarrow> str_nat n = str_nat (n div 10) @ [digit_char (n mod 10)]"
  by (subst str_nat.simps) simp

lemma str_int_0 [simp]: "str_int 0 = ''0''"
  by (simp add: str_int_def str_nat_small digit_char_def)

lemma init_ex_fresh:
  "NetgearRouterSensorEntity_init PyNone ex_switch ex_description = Inr (ex_fresh, [])"
  by (simp add: NetgearRouterSensorEntity_init_def async_update_device_def ex_fresh_def
      ex_switch_def ex_description_def NetgearSensorEntityDescription_init_def)

lemma init_ex_renamed:
  "NetgearRouterSensorEntity_init (PyDict [''switch_ip'' \<mapsto> PyStr ''10.0.0.2''])
     ex_switch_renamed ex_description =
   Inr (ex_entity\<lparr>self_name := ''office IP Address''\<rparr>, [])"
  by (simp add: NetgearRouterSensorEntity_init_def async_update_device_def ex_entity_def
      ex_switch_renamed_def ex_description_def NetgearSensorEntityDescription_init_def)

lemma init_ex_live:
  "NetgearRouterSensorEntity_init (PyDict [''switch_ip'' \<mapsto> PyStr ''10.0.0.9''])
     ex_switch ex_description =
   Inr (ex_fresh\<lparr>self_value := PyStr ''10.0.0.9''\<rparr>, [])"
  by (simp add: NetgearRouterSensorEntity_init_def async_update_device_def ex_fresh_def
      ex_switch_def ex_description_def NetgearSensorEntityDescription_init_def)

lemma refresh_ex_fresh_live:
  "async_update_device (PyDict [''switch_ip'' \<mapsto> PyStr ''10.0.0.9'']) ex_fresh =
   Inr (ex_fresh\<lparr>self_value := PyStr ''10.0.0.9''\<rparr>, [])"
  by (simp add: async_update_device_def ex_fresh_def ex_description_def
      NetgearSensorEntityDescription_init_def)

text \<open>
  A coordinator \<^verbatim>\<open>data\<close> that is neither \<^verbatim>\<open>None\<close> nor a dictionary, such as the
  \<^verbatim>\<open>True\<close> that \<^verbatim>\<open>async_setup_entry\<close> assigns, has no \<^verbatim>\<open>get\<close>: a refresh that
  found it would raise.
\<close>

lemma async_update_device_not_a_mapping:
  "async_update_device (PyBool b) self = Inl AttributeError"
  by (simp add: async_update_device_def)

section \<open>The refresh operation\<close>

text \<open>
  C2. For every entity and every snapshot that is a dictionary without the entity's
  descriptor key, the refresh returns normally, leaves the cached value
  \<^verbatim>\<open>None\<close> and logs one debug record naming the key.
\<close>

theorem refresh_missing_key_clears:
  "m (key (entity_description self)) = None \<Longrightarrow>
   async_update_device (PyDict m) self =
     Inr (self\<lparr>self_value := PyNone\<rparr>,
          [Debug missing_key_format (key (entity_description self)) PyNone])"
  by (simp add: async_update_device_def)

theorem refresh_missing_key_clears_witness:
  "Map.empty (key (entity_description ex_entity)) = None \<and>
   async_update_device (PyDict Map.empty) ex_entity =
     Inr (ex_entity\<lparr>self_value := PyNone\<rparr>,
          [Debug missing_key_format ''switch_ip'' PyNone])"
  using refresh_missing_key_clears [of Map.empty ex_entity] by simp

text \<open>
  C4. When the coordinator's snapshot is unset, the refresh returns the entity as
  it was, whatever value it cached, and logs nothing.
\<close>

theorem refresh_unset_is_noop:
  "async_update_device PyNone self = Inr (self, [])"
  by (simp add: async_update_device_def)

text \<open>
  C8. The refresh returns normally on an unset snapshot and on every dictionary,
  whether empty, without the key, or with the key at any value.
\<close>

theorem refresh_total:
  "(\<exists>self' logged. async_update_device PyNone self = Inr (self', logged)) \<and>
   (\<exists>self' logged. async_update_device (PyDict m) self = Inr (self', logged))"
  by (simp add: async_update_device_def)

text \<open>
  C10. When the snapshot maps the entity's key to \<^verbatim>\<open>None\<close>, the refresh clears
  the cached value and logs the debug record, with the same result as on the
  snapshot without the key; the result does not mention the extraction function.
\<close>

theorem refresh_null_value_as_missing:
  "m (key (entity_description self)) = Some PyNone \<Longrightarrow>
   async_update_device (PyDict m) self =
     Inr (self\<lparr>self_value := PyNone\<rparr>,
          [Debug missing_key_format (key (entity_description self)) PyNone]) \<and>
   async_update_device (PyDict m) self =
     async_update_device (PyDict (m(key (entity_description self) := None))) self"
  by (simp add: async_update_device_def)

theorem refresh_null_value_as_missing_witness:
  "[''switch_ip'' \<mapsto> PyNone] (key (entity_description ex_entity)) = Some PyNone \<and>
   async_update_device (PyDict [''switch_ip'' \<mapsto> PyNone]) ex_entity =
     Inr (ex_entity\<lparr>self_value := PyNone\<rparr>,
          [Debug missing_key_format ''switch_ip'' PyNone]) \<and>
   async_update_device (PyDict [''switch_ip'' \<mapsto> PyNone]) ex_entity =
     async_update_device (PyDict Map.empty) ex_entity"
  using refresh_null_value_as_missing [of "[''switch_ip'' \<mapsto> PyNone]" ex_entity]
  by (simp add: async_update_device_def)

text \<open>
  C3, counterexample. The snapshot maps the key to \<^verbatim>\<open>None\<close> and the description's
  extraction function is \<^verbatim>\<open>lambda data: 0\<close>: the refresh leaves \<^verbatim>\<open>None\<close>, while
  the extraction function applied to the stored value is \<^verbatim>\<open>0\<close>.
\<close>

theorem refresh_null_value_not_extracted:
  "[''switch_ip'' \<mapsto> PyNone] (key (entity_description ex_const_entity)) = Some PyNone \<and>
   async_update_device (PyDict [''switch_ip'' \<mapsto> PyNone]) ex_const_entity =
     Inr (ex_const_entity\<lparr>self_value := PyNone\<rparr>,
          [Debug missing_key_format ''switch_ip'' PyNone]) \<and>
   self_value (ex_const_entity\<lparr>self_value := PyNone\<rparr>) \<noteq>
     value_fn (entity_description ex_const_entity) PyNone"
  by (simp add: async_update_device_def ex_const_entity_def ex_const_description_def
      ex_description_def NetgearSensorEntityDescription_init_def)

text \<open>
  C3, amended. For every entity and every dictionary snapshot that maps the
  entity's key to a value \<open>V\<close>, where \<open>V\<close> is not \<^verbatim>\<open>None\<close> or the extraction
  function is the default identity, the refresh returns normally with the cached
  value equal to the extraction function applied to \<open>V\<close>.
\<close>

theorem refresh_present_key_extracts:
  "m (key (entity_description self)) = Some V \<Longrightarrow>
   V \<noteq> PyNone \<or> value_fn (entity_description self) = (\<lambda>data. data) \<Longrightarrow>
   \<exists>logged. async_update_device (PyDict m) self =
     Inr (self\<lparr>self_value := value_fn (entity_description self) V\<rparr>, logged)"
  by (auto simp add: async_update_device_def)

theorem refresh_present_key_extracts_witness:
  "[''switch_ip'' \<mapsto> PyStr ''10.0.0.9''] (key (entity_description ex_entity)) =
     Some (PyStr ''10.0.0.9'') \<and>
   PyStr ''10.0.0.9'' \<noteq> PyNone \<and>
   (\<exists>logged. async_update_device (PyDict [''switch_ip'' \<mapsto> PyStr ''10.0.0.9'']) ex_entity =
     Inr (ex_entity\<lparr>self_value := PyStr ''10.0.0.9''\<rparr>, logged))"
  using refresh_present_key_extracts [of "[''switch_ip'' \<mapsto> PyStr ''10.0.0.9'']" ex_entity
      "PyStr ''10.0.0.9''"]
  by simp

section \<open>Construction, attach and restoration\<close>

text \<open>
  C5. An entity constructed while the snapshot is unset caches \<^verbatim>\<open>None\<close>. Attached
  while the snapshot is still unset, it keeps that when nothing was persisted and
  otherwise reports the persisted value; a refresh on an unset snapshot returns it
  unchanged, and a refresh on a dictionary snapshot gives the result it gives for
  the entity that restored nothing. Attached while the snapshot is set, the entity
  is unchanged: nothing is restored.
\<close>

theorem attach_restores_only_when_unset:
  "\<exists>entity.
     NetgearRouterSensorEntity_init PyNone switch description = Inr (entity, []) \<and>
     native_value entity = PyNone \<and>
     async_added_to_hass PyNone None entity = entity \<and>
     native_value (async_added_to_hass PyNone (Some sensor_data) entity) =
       stored_native_value sensor_data \<and>
     async_update_device PyNone (async_added_to_hass PyNone (Some sensor_data) entity) =
       Inr (async_added_to_hass PyNone (Some sensor_data) entity, []) \<and>
     async_update_device (PyDict m) (async_added_to_hass PyNone (Some sensor_data) entity) =
       async_update_device (PyDict m) entity \<and>
     (coordinator_data \<noteq> PyNone \<longrightarrow>
        async_added_to_hass coordinator_data last_sensor_data self = self)"
  by (simp add: NetgearRouterSensorEntity_init_def async_update_device_def
      async_added_to_hass_def native_value_def split: sum.splits)

theorem attach_restores_only_when_unset_witness:
  "PyDict [''switch_ip'' \<mapsto> PyStr ''10.0.0.9''] \<noteq> PyNone \<and>
   NetgearRouterSensorEntity_init PyNone ex_switch ex_description = Inr (ex_fresh, []) \<and>
   native_value (async_added_to_hass PyNone (Some ex_stored) ex_fresh) = PyStr ''10.0.0.2'' \<and>
   async_update_device PyNone (async_added_to_hass PyNone (Some ex_stored) ex_fresh) =
     Inr (ex_fresh\<lparr>self_value := PyStr ''10.0.0.2''\<rparr>, []) \<and>
   async_added_to_hass (PyDict [''switch_ip'' \<mapsto> PyStr ''10.0.0.9'']) (Some ex_stored)
     (ex_fresh\<lparr>self_value := PyStr ''10.0.0.9''\<rparr>) =
   ex_fresh\<lparr>self_value := PyStr ''10.0.0.9''\<rparr>"
  using attach_restores_only_when_unset [of ex_switch ex_description ex_stored Map.empty
      "PyDict [''switch_ip'' \<mapsto> PyStr ''10.0.0.9'']" "Some ex_stored"
      "ex_fresh\<lparr>self_value := PyStr ''10.0.0.9''\<rparr>"]
  by (simp add: init_ex_fresh async_added_to_hass_def ex_stored_def native_value_def)

text \<open>
  C6. Two constructions from switches with the same unique identifier and
  descriptions with the same key and index give entities with the same unique
  identifier, whatever the snapshots, the device names and the other fields are.
\<close>

theorem unique_id_deterministic:
  "unique_id switch1 = unique_id switch2 \<Longrightarrow>
   key description1 = key description2 \<Longrightarrow>
   index description1 = index description2 \<Longrightarrow>
   NetgearRouterSensorEntity_init data1 switch1 description1 = Inr (entity1, logged1) \<Longrightarrow>
   NetgearRouterSensorEntity_init data2 switch2 description2 = Inr (entity2, logged2) \<Longrightarrow>
   self_unique_id entity1 = self_unique_id entity2"
  by (auto simp add: NetgearRouterSensorEntity_init_def async_update_device_def
      split: if_splits sum.splits)

theorem unique_id_deterministic_witness:
  "unique_id ex_switch = unique_id ex_switch_renamed \<and>
   NetgearRouterSensorEntity_init PyNone ex_switch ex_description = Inr (ex_fresh, []) \<and>
   NetgearRouterSensorEntity_init (PyDict [''switch_ip'' \<mapsto> PyStr ''10.0.0.2''])
     ex_switch_renamed ex_description =
     Inr (ex_entity\<lparr>self_name := ''office IP Address''\<rparr>, []) \<and>
   self_unique_id ex_fresh = self_unique_id (ex_entity\<lparr>self_name := ''office IP Address''\<rparr>)"
proof -
  have u: "unique_id ex_switch = unique_id ex_switch_renamed"
    by (simp add: ex_switch_def ex_switch_renamed_def)
  from unique_id_deterministic [OF u refl refl init_ex_fresh init_ex_renamed]
    u init_ex_fresh init_ex_renamed
  show ?thesis by simp
qed

section \<open>The invariant, operation by operation\<close>

lemma refresh_dict_establishes_invariant:
  "async_update_device (PyDict m) self = Inr (self', logged) \<Longrightarrow>
   cached_value_invariant (PyDict m) self'"
  by (cases "m (key (entity_description self))")
    (auto simp add: async_update_device_def cached_value_invariant_def split: if_splits)

lemma refresh_preserves_invariant:
  "cached_value_invariant coordinator_data self \<Longrightarrow>
   async_update_device coordinator_data self = Inr (self', logged) \<Longrightarrow>
   cached_value_invariant coordinator_data self'"
proof (cases coordinator_data)
  case PyNone
  then show "async_update_device coordinator_data self = Inr (self', logged) \<Longrightarrow>
    cached_value_invariant coordinator_data self \<Longrightarrow> ?thesis"
    by (simp add: async_update_device_def)
qed (simp_all add: async_update_device_not_a_mapping refresh_dict_establishes_invariant,
     simp_all add: async_update_device_def)

lemma init_establishes_invariant:
  "NetgearRouterSensorEntity_init coordinator_data switch description = Inr (entity, logged) \<Longrightarrow>
   cached_value_invariant coordinator_data entity"
proof -
  assume init:
    "NetgearRouterSensorEntity_init coordinator_data switch description = Inr (entity, logged)"
  define fresh where "fresh =
    \<lparr>entity_description = description,
     self_name = device_name switch @ '' '' @ name description,
     self_unique_id =
       unique_id switch @ ''-'' @ key description @ ''-'' @ str_int (index description),
     self_value = PyNone\<rparr>"
  have "cached_value_invariant coordinator_data fresh"
    by (simp add: cached_value_invariant_def fresh_def)
  moreover from init have "async_update_device coordinator_data fresh = Inr (entity, logged)"
    by (simp add: NetgearRouterSensorEntity_init_def fresh_def)
  ultimately show ?thesis
    by (rule refresh_preserves_invariant)
qed

lemma attach_preserves_invariant:
  "cached_value_invariant coordinator_data self \<Longrightarrow>
   coordinator_data \<noteq> PyNone \<or> last_sensor_data = None \<Longrightarrow>
   cached_value_invariant coordinator_data
     (async_added_to_hass coordinator_data last_sensor_data self)"
  by (auto simp add: async_added_to_hass_def)

text \<open>
  C7, counterexample. The entity constructed while the snapshot is unset satisfies
  the invariant; after the attach step restores a persisted value, with the
  snapshot still unset, it does not.
\<close>

theorem restore_breaks_invariant:
  "NetgearRouterSensorEntity_init PyNone ex_switch ex_description = Inr (ex_fresh, []) \<and>
   cached_value_invariant PyNone ex_fresh \<and>
   \<not> cached_value_invariant PyNone (async_added_to_hass PyNone (Some ex_stored) ex_fresh)"
  by (simp add: init_ex_fresh cached_value_invariant_def async_added_to_hass_def ex_stored_def
      ex_fresh_def)

text \<open>
  C7, amended. Construction establishes the invariant for the snapshot it read.
  A refresh on a dictionary snapshot establishes it for that snapshot, and every
  refresh that returns preserves it for the snapshot it read. The attach step
  preserves it when the snapshot is set or nothing was persisted; when the
  snapshot is unset and a state was persisted, the cached value is the persisted
  value instead.
\<close>

theorem cached_value_invariant_steps:
  "(NetgearRouterSensorEntity_init coordinator_data switch description = Inr (entity, logged) \<longrightarrow>
      cached_value_invariant coordinator_data entity) \<and>
   (async_update_device (PyDict m) self = Inr (self', logged') \<longrightarrow>
      cached_value_invariant (PyDict m) self') \<and>
   (cached_value_invariant coordinator_data self \<and>
    async_update_device coordinator_data self = Inr (self', logged') \<longrightarrow>
      cached_value_invariant coordinator_data self') \<and>
   (cached_value_invariant coordinator_data self \<and>
    (coordinator_data \<noteq> PyNone \<or> last_sensor_data = None) \<longrightarrow>
      cached_value_invariant coordinator_data
        (async_added_to_hass coordinator_data last_sensor_data self)) \<and>
   self_value (async_added_to_hass PyNone (Some sensor_data) self) =
     stored_native_value sensor_data"
proof (intro conjI impI)
  show "self_value (async_added_to_hass PyNone (Some sensor_data) self) =
     stored_native_value sensor_data"
    by (simp add: async_added_to_hass_def)
qed (blast intro: init_establishes_invariant refresh_dict_establishes_invariant
      refresh_preserves_invariant attach_preserves_invariant)+

theorem cached_value_invariant_steps_witness:
  "NetgearRouterSensorEntity_init (PyDict [''switch_ip'' \<mapsto> PyStr ''10.0.0.9''])
     ex_switch ex_description = Inr (ex_fresh\<lparr>self_value := PyStr ''10.0.0.9''\<rparr>, []) \<and>
   async_update_device (PyDict [''switch_ip'' \<mapsto> PyStr ''10.0.0.9'']) ex_fresh =
     Inr (ex_fresh\<lparr>self_value := PyStr ''10.0.0.9''\<rparr>, []) \<and>
   cached_value_invariant (PyDict [''switch_ip'' \<mapsto> PyStr ''10.0.0.9'']) ex_fresh \<and>
   PyDict [''switch_ip'' \<mapsto> PyStr ''10.0.0.9''] \<noteq> PyNone \<and>
   cached_value_invariant (PyDict [''switch_ip'' \<mapsto> PyStr ''10.0.0.9''])
     (ex_fresh\<lparr>self_value := PyStr ''10.0.0.9''\<rparr>) \<and>
   cached_value_invariant (PyDict [''switch_ip'' \<mapsto> PyStr ''10.0.0.9''])
     (async_added_to_hass (PyDict [''switch_ip'' \<mapsto> PyStr ''10.0.0.9''])
        (Some ex_stored) ex_fresh) \<and>
   self_value (async_added_to_hass PyNone (Some ex_stored) ex_fresh) = PyStr ''10.0.0.2''"
proof -
  have inv: "cached_value_invariant (PyDict [''switch_ip'' \<mapsto> PyStr ''10.0.0.9'']) ex_fresh"
    by (simp add: cached_value_invariant_def ex_fresh_def)
  from cached_value_invariant_steps [of "PyDict [''switch_ip'' \<mapsto> PyStr ''10.0.0.9'']" ex_switch ex_description
        "ex_fresh\<lparr>self_value := PyStr ''10.0.0.9''\<rparr>" "[]"
        "[''switch_ip'' \<mapsto> PyStr ''10.0.0.9'']" ex_fresh
        "ex_fresh\<lparr>self_value := PyStr ''10.0.0.9''\<rparr>" "[]" "Some ex_stored" ex_stored]
    inv init_ex_live refresh_ex_fresh_live
  show ?thesis by (simp add: ex_stored_def)
qed

section \<open>Decimal digits\<close>

lemma digit_char_inj: "a < 10 \<Longrightarrow> b < 10 \<Longrightarrow> digit_char a = digit_char b \<Longrightarrow> a = b"
  unfolding digit_char_def
  by (rule iffD1 [OF nth_eq_iff_index_eq]) simp_all

lemma digit_char_not_underscore: "d < 10 \<Longrightarrow> digit_char d \<noteq> CHR ''_''"
proof -
  assume "d < 10"
  then have "digit_char d \<in> set ''0123456789''"
    unfolding digit_char_def by (intro nth_mem) simp
  then show ?thesis by auto
qed

lemma str_nat_not_Nil: "str_nat n \<noteq> []"
  by (subst str_nat.simps) simp

lemma str_nat_no_underscore: "CHR ''_'' \<notin> set (str_nat n)"
proof (induction n rule: str_nat.induct)
  case (1 n)
  show ?case
  proof (cases "n < 10")
    case True
    then show ?thesis
      using digit_char_not_underscore [of n] by (simp add: str_nat_small)
  next
    case False
    then show ?thesis
      using 1 digit_char_not_underscore [of "n mod 10"] by (simp add: str_nat_large)
  qed
qed

lemma str_nat_inj: "str_nat n = str_nat m \<Longrightarrow> n = m"
proof (induction n arbitrary: m rule: str_nat.induct)
  case (1 n)
  show ?case
  proof (cases "n < 10")
    case n: True
    show ?thesis
    proof (cases "m < 10")
      case True
      with n 1(2) show ?thesis
        by (simp add: str_nat_small digit_char_inj)
    next
      case False
      with n 1(2) str_nat_not_Nil [of "m div 10"] show ?thesis
        by (simp add: str_nat_small str_nat_large Cons_eq_append_conv)
    qed
  next
    case n: False
    show ?thesis
    proof (cases "m < 10")
      case True
      with n 1(2) str_nat_not_Nil [of "n div 10"] show ?thesis
        by (simp add: str_nat_small str_nat_large append_eq_Cons_conv)
    next
      case False
      with n 1(2) have eq: "str_nat (n div 10) = str_nat (m div 10)"
        and d: "digit_char (n mod 10) = digit_char (m mod 10)"
        by (simp_all add: str_nat_large)
      from 1(1) [OF n eq] have "n div 10 = m div 10" .
      moreover from d have "n mod 10 = m mod 10"
        by (intro digit_char_inj) simp_all
      ultimately show ?thesis
        by (metis div_mult_mod_eq)
    qed
  qed
qed

lemma str_int_nonneg: "0 \<le> i \<Longrightarrow> str_int i = str_nat (nat i)"
  by (simp add: str_int_def)

lemma str_int_suffix_inj:
  assumes "0 \<le> p" "0 \<le> q"
    and "str_int p @ CHR ''_'' # s = str_int q @ CHR ''_'' # t"
  shows "p = q \<and> s = t"
proof -
  let ?P = "\<lambda>c. c \<noteq> CHR ''_''"
  from assms have eq: "str_nat (nat p) @ CHR ''_'' # s = str_nat (nat q) @ CHR ''_'' # t"
    by (simp add: str_int_nonneg)
  have "takeWhile ?P (str_nat (nat p) @ CHR ''_'' # s) = str_nat (nat p)"
    using str_nat_no_underscore [of "nat p"] by (auto simp add: takeWhile_tail)
  moreover have "takeWhile ?P (str_nat (nat q) @ CHR ''_'' # t) = str_nat (nat q)"
    using str_nat_no_underscore [of "nat q"] by (auto simp add: takeWhile_tail)
  ultimately have n: "str_nat (nat p) = str_nat (nat q)"
    using eq by simp
  then have "nat p = nat q" by (rule str_nat_inj)
  with assms(1,2) have "p = q" by simp
  moreover from eq n have "s = t" by simp
  ultimately show ?thesis ..
qed

section \<open>The descriptions and keys that setup builds\<close>

lemma key_NetgearSensorEntityDescription_init [simp]:
  "key (NetgearSensorEntityDescription_init k n cat u dc ic) = k"
  by (simp add: NetgearSensorEntityDescription_init_def)

lemma port_description_keys:
  "map (\<lambda>item. key (port_description p item)) PORT_TEMPLATE = map (port_key p) port_key_suffixes"
  by (simp add: PORT_TEMPLATE_def port_description_def port_key_suffixes_def port_key_def)

lemma map_Suc_upto: "map (\<lambda>i. i + 1) [a..b] = [a + 1..b + 1]"
proof (induction a b rule: upto.induct)
  case (1 i j)
  show ?case
  proof (cases "i \<le> j")
    case True
    with 1 show ?thesis by (simp add: upto_rec1 [of i j] upto_rec1 [of "i + 1" "j + 1"])
  next
    case False
    then show ?thesis by simp
  qed
qed

lemma port_descriptions_ports:
  "port_descriptions ports_cnt =
   concat (map (\<lambda>p. map (port_description p) PORT_TEMPLATE) [1..ports_cnt])"
proof -
  have "map (\<lambda>i. map (port_description (i + 1)) PORT_TEMPLATE) [0..ports_cnt - 1] =
        map (\<lambda>p. map (port_description p) PORT_TEMPLATE) (map (\<lambda>i. i + 1) [0..ports_cnt - 1])"
    by (simp add: comp_def)
  then show ?thesis
    by (simp add: port_descriptions_def map_Suc_upto)
qed

lemma port_descriptions_keys:
  "map key (port_descriptions ports_cnt) =
   concat (map (\<lambda>p. map (port_key p) port_key_suffixes) [1..ports_cnt])"
  by (simp add: port_descriptions_ports map_concat comp_def port_description_keys)

lemma length_concat_const:
  "(\<And>x. x \<in> set xs \<Longrightarrow> length (f x) = k) \<Longrightarrow> length (concat (map f xs)) = k * length xs"
  by (induction xs) simp_all

lemma length_port_descriptions: "length (port_descriptions ports_cnt) = 5 * nat ports_cnt"
  unfolding port_descriptions_ports
  by (subst length_concat_const [where k = 5]) (simp_all add: PORT_TEMPLATE_def)

lemma port_keys_product:
  "concat (map (\<lambda>p. map (port_key p) port_key_suffixes) ps) =
   map (\<lambda>(p, s). port_key p s) (List.product ps port_key_suffixes)"
  by (induction ps) simp_all

lemma port_key_inj:
  "0 \<le> p \<Longrightarrow> 0 \<le> q \<Longrightarrow> port_key p s = port_key q t \<Longrightarrow> p = q \<and> s = t"
  by (rule str_int_suffix_inj) (simp_all add: port_key_def)

lemma distinct_port_keys: "distinct (map key (port_descriptions ports_cnt))"
proof -
  have "distinct (List.product [1..ports_cnt] port_key_suffixes)"
    by (simp add: distinct_product port_key_suffixes_def)
  moreover have "inj_on (\<lambda>(p, s). port_key p s)
      (set (List.product [1..ports_cnt] port_key_suffixes))"
    by (rule inj_onI) (auto dest: port_key_inj [rotated 2])
  ultimately show ?thesis
    by (simp add: port_descriptions_keys port_keys_product distinct_map)
qed

lemma port_key_hd:
  "k \<in> set (map key (port_descriptions ports_cnt)) \<Longrightarrow> hd k = CHR ''p''"
  by (auto simp add: port_descriptions_keys port_key_def)

lemma device_keys:
  "map key DEVICE_SENSOR_TYPES =
   [''switch_ip'', ''switch_name'', ''switch_bootloader'', ''switch_firmware'',
    ''switch_serial_number'', ''response_time_s'']"
  by (simp add: DEVICE_SENSOR_TYPES_def)

lemma device_port_keys_disjoint:
  "set (map key DEVICE_SENSOR_TYPES) \<inter> set (map key (port_descriptions ports_cnt)) = {}"
proof -
  have "\<forall>k \<in> set (map key DEVICE_SENSOR_TYPES). hd k \<noteq> CHR ''p''"
    by (simp add: device_keys)
  moreover have "\<forall>k \<in> set (map key (port_descriptions ports_cnt)). hd k = CHR ''p''"
    using port_key_hd by blast
  ultimately show ?thesis by blast
qed

lemma distinct_all_keys:
  "distinct (map key (DEVICE_SENSOR_TYPES @ port_descriptions ports_cnt))"
proof -
  have "distinct (map key DEVICE_SENSOR_TYPES)"
    by (simp add: device_keys)
  then show ?thesis
    unfolding map_append distinct_append
    using distinct_port_keys device_port_keys_disjoint by (intro conjI)
qed

lemma link_rate_not_a_key:
  "''link_rate'' \<notin> set (map key (DEVICE_SENSOR_TYPES @ port_descriptions ports_cnt))"
proof -
  have "''link_rate'' \<notin> set (map key DEVICE_SENSOR_TYPES)"
    by (simp add: device_keys)
  moreover have "''link_rate'' \<notin> set (map key (port_descriptions ports_cnt))"
    using port_key_hd [of "''link_rate''" ports_cnt] by auto
  ultimately show ?thesis
    unfolding map_append set_append by blast
qed

lemma str_int_digits [simp]:
  "str_int 1 = ''1''" "str_int 2 = ''2''" "str_int 3 = ''3''" "str_int 4 = ''4''"
  "str_int 5 = ''5''" "str_int 6 = ''6''" "str_int 7 = ''7''" "str_int 8 = ''8''"
  by (simp_all add: str_int_def str_nat_small digit_char_def)

lemma upto_1_8: "[1..8::int] = [1, 2, 3, 4, 5, 6, 7, 8]"
  by (simp add: upto_rec1)

lemma port_descriptions_1:
  "port_descriptions 1 =
   [ NetgearSensorEntityDescription_init ''port_1_traffic_rx_mbytes'' ''Port 1 Traffic Received'' None (Some MEGABYTES) (Some DATA_SIZE) ''mdi:download'',
     NetgearSensorEntityDescription_init ''port_1_traffic_tx_mbytes'' ''Port 1 Traffic Transferred'' None (Some MEGABYTES) (Some DATA_SIZE) ''mdi:upload'',
     NetgearSensorEntityDescription_init ''port_1_speed_rx_mbytes'' ''Port 1 Receiving'' None (Some MEGABYTES_PER_SECOND) (Some DATA_RATE) ''mdi:download'',
     NetgearSensorEntityDescription_init ''port_1_speed_tx_mbytes'' ''Port 1 Receiving'' None (Some MEGABYTES_PER_SECOND) (Some DATA_RATE) ''mdi:upload'',
     NetgearSensorEntityDescription_init ''port_1_speed_io_mbytes'' ''Port 1 Receiving'' None (Some MEGABYTES_PER_SECOND) (Some DATA_RATE) ''mdi:swap-vertical'' ]"
  by (simp add: port_descriptions_ports PORT_TEMPLATE_def port_description_def)

lemma port_description_fields:
  "map (\<lambda>item. native_unit_of_measurement (port_description p item)) PORT_TEMPLATE =
     [Some MEGABYTES, Some MEGABYTES, Some MEGABYTES_PER_SECOND, Some MEGABYTES_PER_SECOND,
      Some MEGABYTES_PER_SECOND]"
  "map (\<lambda>item. device_class (port_description p item)) PORT_TEMPLATE =
     [Some DATA_SIZE, Some DATA_SIZE, Some DATA_RATE, Some DATA_RATE, Some DATA_RATE]"
  "map (\<lambda>item. icon (port_description p item)) PORT_TEMPLATE =
     [''mdi:download'', ''mdi:upload'', ''mdi:download'', ''mdi:upload'', ''mdi:swap-vertical'']"
  by (simp_all add: PORT_TEMPLATE_def port_description_def NetgearSensorEntityDescription_init_def)

lemma port_keys_8: "map key (port_descriptions 8) = map key PORT_SENSORS"
  by (simp add: port_descriptions_keys upto_1_8 port_key_suffixes_def port_key_def PORT_SENSORS_def)

lemma port_units_8:
  "map native_unit_of_measurement (port_descriptions 8) = map native_unit_of_measurement PORT_SENSORS"
  by (simp add: port_descriptions_ports map_concat comp_def port_description_fields upto_1_8
      PORT_SENSORS_def NetgearSensorEntityDescription_init_def)

lemma port_classes_8:
  "map device_class (port_descriptions 8) = map device_class PORT_SENSORS"
  by (simp add: port_descriptions_ports map_concat comp_def port_description_fields upto_1_8
      PORT_SENSORS_def NetgearSensorEntityDescription_init_def)

lemma port_icons_8:
  "map icon (port_descriptions 8) = map icon PORT_SENSORS"
  by (simp add: port_descriptions_ports map_concat comp_def port_description_fields upto_1_8
      PORT_SENSORS_def NetgearSensorEntityDescription_init_def)

lemma port_descriptions_8_not_PORT_SENSORS: "port_descriptions 8 \<noteq> PORT_SENSORS"
proof
  assume "port_descriptions 8 = PORT_SENSORS"
  then have "name (port_descriptions 8 ! 3) = name (PORT_SENSORS ! 3)"
    by simp
  moreover have "port_descriptions 8 ! 3 = port_descriptions 1 ! 3"
    by (simp add: port_descriptions_ports upto_1_8 PORT_TEMPLATE_def)
  ultimately show False
    by (simp add: port_descriptions_1 PORT_SENSORS_def NetgearSensorEntityDescription_init_def)
qed

section \<open>Setup builds the catalog\<close>

lemma init_succeeds:
  "coordinator_data = PyNone \<or> coordinator_data = PyDict m \<Longrightarrow>
   \<exists>entity logged.
     NetgearRouterSensorEntity_init coordinator_data switch description = Inr (entity, logged) \<and>
     entity_description entity = description"
  by (auto simp add: NetgearRouterSensorEntity_init_def async_update_device_def)

lemma create_entities_succeeds:
  "coordinator_data = PyNone \<or> coordinator_data = PyDict m \<Longrightarrow>
   \<exists>entities logged.
     create_entities coordinator_data switch descriptions = Inr (entities, logged) \<and>
     map entity_description entities = descriptions"
proof (induction descriptions)
  case Nil
  then show ?case by simp
next
  case (Cons description rest)
  from init_succeeds [OF Cons.prems, of switch description] obtain entity logged
    where "NetgearRouterSensorEntity_init coordinator_data switch description = Inr (entity, logged)"
      and "entity_description entity = description"
    by blast
  moreover from Cons.IH [OF Cons.prems] obtain entities logged'
    where "create_entities coordinator_data switch rest = Inr (entities, logged')"
      and "map entity_description entities = rest"
    by blast
  ultimately show ?case by simp
qed

text \<open>
  Setup on a coordinator \<^verbatim>\<open>data\<close> that is neither \<^verbatim>\<open>None\<close> nor a dictionary
  raises while it constructs the first entity.
\<close>

lemma async_setup_entry_not_a_mapping:
  "async_setup_entry (PyBool b) gs_switch = Inl AttributeError"
  by (simp add: async_setup_entry_def DEVICE_SENSOR_TYPES_def NetgearRouterSensorEntity_init_def
      async_update_device_def)

text \<open>
  C1. When the coordinator's snapshot is unset or a dictionary, setup returns
  normally for every port count. The entities' descriptions are the six
  device-level descriptions followed, for each port from 1 to the port count in
  order, by the five descriptions built from the port template: six plus five
  times the port count entities. Their keys are the six device keys followed by
  the port keys, all pairwise distinct; the key of \<^verbatim>\<open>SENSOR_TYPES\<close> is not among
  them, and the port descriptions are never the list \<^verbatim>\<open>PORT_SENSORS\<close>.
\<close>

theorem setup_instantiates_catalog:
  assumes "coordinator_data = PyNone \<or> coordinator_data = PyDict m"
  shows "\<exists>switch_entities logged.
     async_setup_entry coordinator_data gs_switch = Inr (switch_entities, logged, PyBool True) \<and>
     map entity_description switch_entities =
       DEVICE_SENSOR_TYPES @
       concat (map (\<lambda>p. map (port_description p) PORT_TEMPLATE) [1..SWITCH_PORTS gs_switch]) \<and>
     length switch_entities = 6 + 5 * nat (SWITCH_PORTS gs_switch) \<and>
     map (\<lambda>entity. key (entity_description entity)) switch_entities =
       [''switch_ip'', ''switch_name'', ''switch_bootloader'', ''switch_firmware'',
        ''switch_serial_number'', ''response_time_s''] @
       concat (map (\<lambda>p. map (port_key p) port_key_suffixes) [1..SWITCH_PORTS gs_switch]) \<and>
     distinct (map (\<lambda>entity. key (entity_description entity)) switch_entities) \<and>
     set (map fst SENSOR_TYPES) \<inter>
       set (map (\<lambda>entity. key (entity_description entity)) switch_entities) = {} \<and>
     drop 6 (map entity_description switch_entities) \<noteq> PORT_SENSORS"
proof -
  let ?N = "SWITCH_PORTS gs_switch"
  let ?ds = "DEVICE_SENSOR_TYPES @ port_descriptions ?N"
  from create_entities_succeeds [OF assms, of gs_switch ?ds] obtain switch_entities logged
    where c: "create_entities coordinator_data gs_switch ?ds = Inr (switch_entities, logged)"
      and d: "map entity_description switch_entities = ?ds"
    by blast
  have k: "map (\<lambda>entity. key (entity_description entity)) switch_entities = map key ?ds"
    using d [symmetric] by (simp add: comp_def)
  have "async_setup_entry coordinator_data gs_switch = Inr (switch_entities, logged, PyBool True)"
    by (simp add: async_setup_entry_def c)
  moreover have "map entity_description switch_entities =
       DEVICE_SENSOR_TYPES @
       concat (map (\<lambda>p. map (port_description p) PORT_TEMPLATE) [1..?N])"
    by (simp add: d port_descriptions_ports)
  moreover have "length switch_entities = 6 + 5 * nat ?N"
    using arg_cong [OF d, of length] by (simp add: length_port_descriptions DEVICE_SENSOR_TYPES_def)
  moreover have "map (\<lambda>entity. key (entity_description entity)) switch_entities =
       [''switch_ip'', ''switch_name'', ''switch_bootloader'', ''switch_firmware'',
        ''switch_serial_number'', ''response_time_s''] @
       concat (map (\<lambda>p. map (port_key p) port_key_suffixes) [1..?N])"
    unfolding k map_append device_keys port_descriptions_keys ..
  moreover have "distinct (map (\<lambda>entity. key (entity_description entity)) switch_entities)"
    unfolding k by (rule distinct_all_keys)
  moreover have "set (map fst SENSOR_TYPES) \<inter>
       set (map (\<lambda>entity. key (entity_description entity)) switch_entities) = {}"
    unfolding k using link_rate_not_a_key [of ?N] by (simp add: SENSOR_TYPES_def)
  moreover have "drop 6 (map entity_description switch_entities) \<noteq> PORT_SENSORS"
  proof
    assume "drop 6 (map entity_description switch_entities) = PORT_SENSORS"
    then have eq: "port_descriptions ?N = PORT_SENSORS"
      by (simp add: d DEVICE_SENSOR_TYPES_def)
    from arg_cong [OF eq, of length] have "?N = 8"
      by (simp add: length_port_descriptions PORT_SENSORS_def)
    with eq show False
      by (simp add: port_descriptions_8_not_PORT_SENSORS)
  qed
  ultimately show ?thesis by blast
qed

theorem setup_instantiates_catalog_witness:
  "(PyNone = PyNone \<or> PyNone = PyDict Map.empty) \<and>
   (\<exists>switch_entities logged.
      async_setup_entry PyNone ex_switch = Inr (switch_entities, logged, PyBool True) \<and>
      length switch_entities = 16 \<and>
      map (\<lambda>entity. key (entity_description entity)) switch_entities =
        [''switch_ip'', ''switch_name'', ''switch_bootloader'', ''switch_firmware'',
         ''switch_serial_number'', ''response_time_s'',
         ''port_1_traffic_rx_mbytes'', ''port_1_traffic_tx_mbytes'', ''port_1_speed_rx_mbytes'',
         ''port_1_speed_tx_mbytes'', ''port_1_speed_io_mbytes'',
         ''port_2_traffic_rx_mbytes'', ''port_2_traffic_tx_mbytes'', ''port_2_speed_rx_mbytes'',
         ''port_2_speed_tx_mbytes'', ''port_2_speed_io_mbytes''] \<and>
      distinct (map (\<lambda>entity. key (entity_description entity)) switch_entities))"
proof -
  have h: "PyNone = PyNone \<or> PyNone = PyDict Map.empty"
    by simp
  have n: "SWITCH_PORTS ex_switch = 2"
    by (simp add: ex_switch_def)
  have u: "[1..2::int] = [1, 2]"
    by (simp add: upto_rec1)
  from setup_instantiates_catalog [OF h, of ex_switch] obtain switch_entities logged
    where r: "async_setup_entry PyNone ex_switch = Inr (switch_entities, logged, PyBool True)"
      and l: "length switch_entities = 6 + 5 * nat (SWITCH_PORTS ex_switch)"
      and k: "map (\<lambda>entity. key (entity_description entity)) switch_entities =
        [''switch_ip'', ''switch_name'', ''switch_bootloader'', ''switch_firmware'',
         ''switch_serial_number'', ''response_time_s''] @
        concat (map (\<lambda>p. map (port_key p) port_key_suffixes) [1..SWITCH_PORTS ex_switch])"
      and d: "distinct (map (\<lambda>entity. key (entity_description entity)) switch_entities)"
    by blast
  show ?thesis
  proof (intro conjI exI)
    show "PyNone = PyNone \<or> PyNone = PyDict Map.empty"
      by (rule h)
    show "async_setup_entry PyNone ex_switch = Inr (switch_entities, logged, PyBool True)"
      by (rule r)
    show "length switch_entities = 16"
      using l by (simp add: n)
    show "map (\<lambda>entity. key (entity_description entity)) switch_entities =
        [''switch_ip'', ''switch_name'', ''switch_bootloader'', ''switch_firmware'',
         ''switch_serial_number'', ''response_time_s'',
         ''port_1_traffic_rx_mbytes'', ''port_1_traffic_tx_mbytes'', ''port_1_speed_rx_mbytes'',
         ''port_1_speed_tx_mbytes'', ''port_1_speed_io_mbytes'',
         ''port_2_traffic_rx_mbytes'', ''port_2_traffic_tx_mbytes'', ''port_2_speed_rx_mbytes'',
         ''port_2_speed_tx_mbytes'', ''port_2_speed_io_mbytes'']"
      using k by (simp add: n u port_key_def port_key_suffixes_def)
    show "distinct (map (\<lambda>entity. key (entity_description entity)) switch_entities)"
      by (rule d)
  qed
qed

section \<open>The hand-written port list and the template\<close>

text \<open>
  C9. For the eight ports, the descriptions built from the template and the
  entries of \<^verbatim>\<open>PORT_SENSORS\<close> have the same keys in the same order, the same
  units, device classes and icons. The display names differ: for port 1 the
  template gives \<^verbatim>\<open>Port 1 Receiving\<close> to the transmit-rate and the combined-rate
  descriptions, where the hand-written list has \<^verbatim>\<open>Port 1 Transferring\<close> and
  \<^verbatim>\<open>Port 1 IO\<close>.
\<close>

theorem port_template_names_diverge:
  "map key (port_descriptions 8) = map key PORT_SENSORS \<and>
   map native_unit_of_measurement (port_descriptions 8) =
     map native_unit_of_measurement PORT_SENSORS \<and>
   map device_class (port_descriptions 8) = map device_class PORT_SENSORS \<and>
   map icon (port_descriptions 8) = map icon PORT_SENSORS \<and>
   map name (port_descriptions 1) =
     [''Port 1 Traffic Received'', ''Port 1 Traffic Transferred'', ''Port 1 Receiving'',
      ''Port 1 Receiving'', ''Port 1 Receiving''] \<and>
   map name (take 5 PORT_SENSORS) =
     [''Port 1 Traffic Received'', ''Port 1 Traffic Transferred'', ''Port 1 Receiving'',
      ''Port 1 Transferring'', ''Port 1 IO'']"
proof (intro conjI)
  show "map name (port_descriptions 1) =
     [''Port 1 Traffic Received'', ''Port 1 Traffic Transferred'', ''Port 1 Receiving'',
      ''Port 1 Receiving'', ''Port 1 Receiving'']"
    by (simp add: port_descriptions_1 NetgearSensorEntityDescription_init_def)
  show "map name (take 5 PORT_SENSORS) =
     [''Port 1 Traffic Received'', ''Port 1 Traffic Transferred'', ''Port 1 Receiving'',
      ''Port 1 Transferring'', ''Port 1 IO'']"
    by (simp add: PORT_SENSORS_def NetgearSensorEntityDescription_init_def)
qed (rule port_keys_8 port_units_8 port_classes_8 port_icons_8)+

end
